theory Spec2Isabelle
  imports Complex_Main
begin

section \<open>Data model (the interfaces of \<open>types\<close>, in src/src/pages/admin/UsersPage.tsx)\<close>

text \<open>
  The records follow the TypeScript interfaces of the repository. An optional string
  field (\<open>locationId?: string\<close>, stored as a string, \<open>null\<close> or absent) is a
  \<open>string option\<close>. Quantities are integers and the invoice counter is a natural
  number; money amounts (JavaScript numbers) are exact rationals. Timestamps (\<open>createdAt\<close>, \<open>updatedAt\<close>,
  \<open>lastLogin\<close>) and the display-only fields are left out: no operation below reads them.
\<close>

datatype UserRole =
  Superadmin | Admin | Manager | Salesperson | Franchise_manager | Franchise_staff | Super_admin

record user =
  uid :: string
  role :: UserRole
  isActive :: bool
  user_locationId :: "string option"

record location =
  location_id :: string
  location_name :: string

record product =
  product_id :: string
  product_name :: string
  product_price :: rat
  product_categoryId :: string
  product_quantity :: int
  product_locationId :: "string option"

record cart_item =
  item_id :: string
  item_productId :: string
  item_name :: string
  item_price :: rat
  item_quantity :: int

datatype paymentMethod = Cash | Card | Upi

record sale =
  sale_id :: string
  invoiceNumber :: string
  sale_items :: "cart_item list"
  sale_subtotal :: rat
  sale_cgst :: rat
  sale_sgst :: rat
  sale_total :: rat
  sale_paymentMethod :: paymentMethod
  sale_locationId :: "string option"
  sale_createdBy :: string

text \<open>\<open>Omit<Sale, 'id' | 'createdAt' | 'invoiceNumber'>\<close>, the argument of \<open>addSale\<close>.\<close>

record sale_data =
  sd_items :: "cart_item list"
  sd_subtotal :: rat
  sd_cgst :: rat
  sd_sgst :: rat
  sd_total :: rat
  sd_paymentMethod :: paymentMethod
  sd_createdBy :: string
  sd_locationId :: "string option"

datatype ReturnType = SaleReturn | PurchaseReturn

record return_item =
  ri_id :: string
  ri_productId :: string
  ri_name :: string
  ri_quantity :: int
  ri_price :: rat

record return_form_data =
  rf_type :: ReturnType
  rf_referenceId :: string
  rf_items :: "return_item list"
  rf_reason :: string
  rf_refundMethod :: "paymentMethod option"
  rf_total :: "rat option"

record return_doc =
  return_id :: string
  return_type :: ReturnType
  referenceId :: string
  return_items :: "return_item list"
  return_reason :: string
  return_total :: rat
  return_refundMethod :: "paymentMethod option"
  return_locationId :: "string option"
  return_createdBy :: "string option"
  return_status :: string

record category =
  category_id :: string
  category_name :: string
  category_locationId :: "string option"

text \<open>The errors the contexts throw, named after their messages.\<close>

datatype error =
  NoLocationAvailable
  | ItemAlreadyReturned string
  | ProductNotFound string

section \<open>Application state\<close>

text \<open>
  One record holds what the React contexts and the document store hold between two user
  actions: the signed-in user (AuthContext), the selected location (LocationContext), the
  product list (ProductContext), the cart (CartContext), the persisted collections
  \<open>sales\<close>, \<open>returns\<close>, \<open>categories\<close> and the in-memory copies the contexts last
  fetched, and the document \<open>counters/sales\<close> (\<open>None\<close> while it does not exist).
  A persisted collection is the list of its documents in the order its query asks for
  (newest first for sales and returns), so \<open>orderBy\<close> is the identity on it and a
  document stored with \<open>serverTimestamp()\<close> goes to the front. The store is taken
  to be available: every \<open>await\<close> of a store call resolves.
\<close>

record app_state =
  currentUser :: "user option"
  currentLocation :: "location option"
  products :: "product list"
  items :: "cart_item list"
  salesDb :: "sale list"
  sales :: "sale list"
  returnsDb :: "return_doc list"
  returns :: "return_doc list"
  categoriesDb :: "category list"
  categories :: "category list"
  counter :: "nat option"

text \<open>JavaScript truthiness of an optional string: \<open>null\<close>, \<open>undefined\<close> and \<open>''\<close> are falsy.\<close>

definition truthy :: "string option \<Rightarrow> bool" where
  "truthy v = (case v of None \<Rightarrow> False | Some s \<Rightarrow> s \<noteq> [])"

text \<open>\<open>currentUser?.role\<close> and \<open>currentUser?.locationId\<close>.\<close>

definition userRole :: "user option \<Rightarrow> UserRole option" where
  "userRole cu = map_option role cu"

definition userLocationId :: "user option \<Rightarrow> string option" where
  "userLocationId cu = (case cu of None \<Rightarrow> None | Some u \<Rightarrow> user_locationId u)"

section \<open>Inventory ledger\<close>

text \<open>\<open>products.find(p => p.id === pid)\<close>.\<close>

definition findProduct :: "product list \<Rightarrow> string \<Rightarrow> product option" where
  "findProduct ps pid = find (\<lambda>p. product_id p = pid) ps"

text \<open>
  Modelled from the spec: \<open>updateProduct\<close> of ProductContext, which is not among the
  source files. The spec's document store updates the fields of a document by
  identifier, and the ledger persists the product it is given: the product stored under
  \<open>pid\<close> becomes \<open>data\<close>, every other product is untouched.
\<close>

definition updateProduct :: "string \<Rightarrow> product \<Rightarrow> product list \<Rightarrow> product list" where
  "updateProduct pid data ps = map (\<lambda>p. if product_id p = pid then data else p) ps"

section \<open>Cart (src/src/contexts/CartContext.tsx)\<close>

text \<open>
  \<open>addItem\<close> takes the identifier \<open>uuidv4()\<close> returns as an argument. The functions
  return no value and throw nothing: a rejected call is a return that leaves the state
  as it was.
\<close>

definition addItem :: "string \<Rightarrow> product \<Rightarrow> app_state \<Rightarrow> app_state" where
  "addItem uuid prd s =
    (case findProduct (products s) (product_id prd) of
      None \<Rightarrow> s
    | Some currentProduct \<Rightarrow>
        if product_quantity currentProduct \<le> 0 then s
        else if (case currentLocation s of
                   None \<Rightarrow> False
                 | Some cl \<Rightarrow> truthy (product_locationId currentProduct) \<and>
                     product_locationId currentProduct \<noteq> Some (location_id cl))
        then s
        else s\<lparr>products :=
                 updateProduct (product_id currentProduct)
                   (currentProduct\<lparr>product_quantity := product_quantity currentProduct - 1\<rparr>)
                   (products s),
               items :=
                 (case find (\<lambda>i. item_productId i = product_id prd) (items s) of
                    Some existingItem \<Rightarrow>
                      map (\<lambda>i. if item_productId i = product_id prd
                                then i\<lparr>item_quantity := item_quantity i + 1\<rparr> else i) (items s)
                  | None \<Rightarrow>
                      items s @ [\<lparr>item_id = uuid, item_productId = product_id prd,
                                  item_name = product_name prd, item_price = product_price prd,
                                  item_quantity = 1\<rparr>])\<rparr>)"

definition removeItem :: "string \<Rightarrow> app_state \<Rightarrow> app_state" where
  "removeItem cid s =
    (case find (\<lambda>i. item_id i = cid) (items s) of
      None \<Rightarrow> s
    | Some item \<Rightarrow>
        (case findProduct (products s) (item_productId item) of
          None \<Rightarrow> s
        | Some p \<Rightarrow>
            s\<lparr>products :=
                updateProduct (product_id p)
                  (p\<lparr>product_quantity := product_quantity p + item_quantity item\<rparr>) (products s),
              items := filter (\<lambda>i. item_id i \<noteq> cid) (items s)\<rparr>))"


definition clearCart :: "app_state \<Rightarrow> app_state" where
  "clearCart s = s\<lparr>items := []\<rparr>"

text \<open>The derived cart amounts: \<open>GST_RATE = 0.05\<close>, split in two halves.\<close>

definition GST_RATE :: rat where
  "GST_RATE = 5 / 100"

definition subtotal :: "app_state \<Rightarrow> rat" where
  "subtotal s = foldl (\<lambda>sum i. sum + item_price i * of_int (item_quantity i)) 0 (items s)"

definition cgst :: "app_state \<Rightarrow> rat" where
  "cgst s = subtotal s * (GST_RATE / 2)"

definition sgst :: "app_state \<Rightarrow> rat" where
  "sgst s = subtotal s * (GST_RATE / 2)"

definition total :: "app_state \<Rightarrow> rat" where
  "total s = subtotal s + cgst s + sgst s"


section \<open>Location-scoped reads\<close>

text \<open>
  The \<open>where\<close> clause a refresh function puts on its query, and the store's answer:
  \<open>where('locationId', '==', l)\<close> keeps the documents whose \<open>locationId\<close> is the
  string \<open>l\<close>; a query without the clause returns the collection.
\<close>

datatype locationFilter = WhereLocationId string | AllLocations

definition getDocs :: "('a \<Rightarrow> string option) \<Rightarrow> locationFilter \<Rightarrow> 'a list \<Rightarrow> 'a list" where
  "getDocs loc q docs =
    (case q of
      WhereLocationId l \<Rightarrow> filter (\<lambda>d. loc d = Some l) docs
    | AllLocations \<Rightarrow> docs)"

text \<open>
  \<open>refreshSales\<close> (SalesContext, the second module of src/src/contexts/AuthContext.tsx):
  the branch chain that builds \<open>q\<close>.
\<close>

definition salesQuery :: "location option \<Rightarrow> user option \<Rightarrow> locationFilter" where
  "salesQuery cl cu =
    (case cl of
      Some l \<Rightarrow> WhereLocationId (location_id l)
    | None \<Rightarrow>
        if userRole cu = Some Salesperson \<and> truthy (userLocationId cu)
        then WhereLocationId (the (userLocationId cu))
        else if userRole cu = Some Manager \<and> truthy (userLocationId cu)
        then WhereLocationId (the (userLocationId cu))
        else if userRole cu = Some Admin \<and> truthy (userLocationId cu)
        then WhereLocationId (the (userLocationId cu))
        else AllLocations)"

definition refreshSales :: "app_state \<Rightarrow> app_state" where
  "refreshSales s =
    s\<lparr>sales := getDocs sale_locationId (salesQuery (currentLocation s) (currentUser s)) (salesDb s)\<rparr>"

text \<open>\<open>refreshReturns\<close> (ReturnContext, the second module of src/unnamed/part_006).\<close>

definition returnsQuery :: "location option \<Rightarrow> user option \<Rightarrow> locationFilter" where
  "returnsQuery cl cu =
    (case cl of
      Some l \<Rightarrow> WhereLocationId (location_id l)
    | None \<Rightarrow>
        if userRole cu = Some Salesperson \<and> truthy (userLocationId cu)
        then WhereLocationId (the (userLocationId cu))
        else if userRole cu = Some Manager \<and> truthy (userLocationId cu)
        then WhereLocationId (the (userLocationId cu))
        else if userRole cu = Some Admin \<and> truthy (userLocationId cu)
        then WhereLocationId (the (userLocationId cu))
        else AllLocations)"

definition refreshReturns :: "app_state \<Rightarrow> app_state" where
  "refreshReturns s =
    s\<lparr>returns :=
        getDocs return_locationId (returnsQuery (currentLocation s) (currentUser s)) (returnsDb s)\<rparr>"



section \<open>Selecting a location (src/src/components/location/LocationSelector.tsx)\<close>


section \<open>Sales (SalesContext, src/src/contexts/AuthContext.tsx)\<close>

text \<open>\<open>String(n)\<close> for a counter value, and \<open>padStart\<close> with a one-character filler.\<close>

definition digitChar :: "nat \<Rightarrow> char" where
  "digitChar d = ''0123456789'' ! d"

function String_nat :: "nat \<Rightarrow> string" where
  "String_nat n = (if n < 10 then [digitChar n] else String_nat (n div 10) @ [digitChar (n mod 10)])"
  by pat_completeness auto
termination
  by (relation "measure (\<lambda>n. n)") auto

definition padStart :: "nat \<Rightarrow> char \<Rightarrow> string \<Rightarrow> string" where
  "padStart targetLength c str = replicate (targetLength - length str) c @ str"

text \<open>
  \<open>getNextInvoiceNumber\<close>: \<open>today\<close> is \<open>format(new Date(), 'yyyyMMdd')\<close>, read from
  the clock by the caller of the model.
\<close>

definition getNextInvoiceNumber :: "string \<Rightarrow> app_state \<Rightarrow> string \<times> app_state" where
  "getNextInvoiceNumber today s =
    (let currentCount = (case counter s of Some c \<Rightarrow> c + 1 | None \<Rightarrow> 1)
     in (''MHF-'' @ today @ ''-'' @ padStart 4 (CHR ''0'') (String_nat currentCount),
         s\<lparr>counter := Some currentCount\<rparr>))"

text \<open>\<open>addSale\<close>: \<open>docId\<close> is the identifier the store gives the new document.\<close>

definition addSale :: "string \<Rightarrow> string \<Rightarrow> sale_data \<Rightarrow> app_state \<Rightarrow> (error + sale) \<times> app_state" where
  "addSale today docId saleData s =
    (let (invoice, s1) = getNextInvoiceNumber today s;
         locationId =
           (if \<not> truthy (sd_locationId saleData) then
              (case currentLocation s of
                Some l \<Rightarrow> Some (location_id l)
              | None \<Rightarrow>
                  if truthy (userLocationId (currentUser s)) then userLocationId (currentUser s)
                  else sd_locationId saleData)
            else sd_locationId saleData)
     in if \<not> truthy locationId \<and> userRole (currentUser s) \<noteq> Some Superadmin
        then (Inl NoLocationAvailable, s1)
        else
          let newSale = \<lparr>sale_id = docId, invoiceNumber = invoice, sale_items = sd_items saleData,
                sale_subtotal = sd_subtotal saleData, sale_cgst = sd_cgst saleData,
                sale_sgst = sd_sgst saleData, sale_total = sd_total saleData,
                sale_paymentMethod = sd_paymentMethod saleData, sale_locationId = locationId,
                sale_createdBy = sd_createdBy saleData\<rparr>
          in (Inr newSale, refreshSales (s1\<lparr>salesDb := newSale # salesDb s1\<rparr>)))"

text \<open>
  \<open>handleConfirmCheckout\<close> (POSPage, src/unnamed/part_003): the receipt and the two modal flags are display
  state and are left out.
\<close>

definition handleConfirmCheckout :: "string \<Rightarrow> string \<Rightarrow> paymentMethod \<Rightarrow> app_state \<Rightarrow> app_state" where
  "handleConfirmCheckout today docId pm s =
    (case currentUser s of
      None \<Rightarrow> s
    | Some u \<Rightarrow>
        (case addSale today docId
                \<lparr>sd_items = items s, sd_subtotal = subtotal s, sd_cgst = cgst s, sd_sgst = sgst s,
                 sd_total = total s, sd_paymentMethod = pm, sd_createdBy = uid u,
                 sd_locationId = user_locationId u\<rparr> s of
          (Inr newSale, s') \<Rightarrow> clearCart s'
        | (Inl err, s') \<Rightarrow> s'))"

text \<open>
  A sequential run of \<open>addSale\<close> calls, each made by the user and with the location
  selection of its own session.
\<close>

record sale_call =
  call_user :: "user option"
  call_location :: "location option"
  call_today :: string
  call_docId :: string
  call_data :: sale_data

fun sequentialSales :: "sale_call list \<Rightarrow> app_state \<Rightarrow> app_state" where
  "sequentialSales [] s = s"
| "sequentialSales (c # cs) s =
    sequentialSales cs
      (snd (addSale (call_today c) (call_docId c) (call_data c)
         (s\<lparr>currentUser := call_user c, currentLocation := call_location c\<rparr>)))"

text \<open>
  Reading an invoice number back: the counter is the decimal number after the last
  \<open>-\<close>.
\<close>

definition digitVal :: "char \<Rightarrow> nat" where
  "digitVal c = length (takeWhile (\<lambda>x. x \<noteq> c) ''0123456789'')"

definition nat_of_string :: "string \<Rightarrow> nat" where
  "nat_of_string str = foldl (\<lambda>acc c. 10 * acc + digitVal c) 0 str"

definition counterOf :: "string \<Rightarrow> nat" where
  "counterOf invoice = nat_of_string (rev (takeWhile (\<lambda>c. c \<noteq> CHR ''-'') (rev invoice)))"

definition currentCountOf :: "app_state \<Rightarrow> nat" where
  "currentCountOf s = (case counter s of None \<Rightarrow> 0 | Some c \<Rightarrow> c)"

text \<open>Every persisted sale carries a counter value that has been handed out already.\<close>

definition invoicesIssued :: "app_state \<Rightarrow> bool" where
  "invoicesIssued s = list_all (\<lambda>x. counterOf (invoiceNumber x) \<le> currentCountOf s) (salesDb s)"

text \<open>The persisted sales, newest first, carry strictly decreasing counter values.\<close>

definition invoicesIncreasing :: "app_state \<Rightarrow> bool" where
  "invoicesIncreasing s = sorted_wrt (>) (map (counterOf \<circ> invoiceNumber) (salesDb s))"

section \<open>Returns (ReturnContext, src/unnamed/part_006)\<close>

definition isItemReturned :: "return_doc list \<Rightarrow> string \<Rightarrow> string \<Rightarrow> bool" where
  "isItemReturned rs orderId itemId =
    list_ex (\<lambda>r. referenceId r = orderId \<and> list_ex (\<lambda>item. ri_id item = itemId) (return_items r)) rs"

text \<open>
  The loop of \<open>addReturn\<close> over the items. Every iteration looks the product up in
  \<open>products\<close>, the list the call started with (\<open>snapshot\<close>), and writes to the store
  through \<open>updateProduct\<close>; a product that is not found stops the loop with the earlier
  writes in place.
\<close>

fun updateQuantities ::
  "ReturnType \<Rightarrow> product list \<Rightarrow> return_item list \<Rightarrow> product list \<Rightarrow> error option \<times> product list"
where
  "updateQuantities ty snapshot [] store = (None, store)"
| "updateQuantities ty snapshot (item # rest) store =
    (case findProduct snapshot (ri_productId item) of
      None \<Rightarrow> (Some (ProductNotFound (ri_name item)), store)
    | Some p \<Rightarrow>
        let quantityChange = (if ty = SaleReturn then ri_quantity item else - ri_quantity item)
        in updateQuantities ty snapshot rest
             (updateProduct (product_id p)
                (p\<lparr>product_quantity := product_quantity p + quantityChange\<rparr>) store))"

definition itemsTotal :: "return_item list \<Rightarrow> rat" where
  "itemsTotal its = foldl (\<lambda>sum item. sum + ri_price item * of_int (ri_quantity item)) 0 its"

text \<open>
  \<open>addReturn\<close>. \<open>data.total || ...\<close> takes the computed sum when \<open>data.total\<close> is
  absent or 0.
\<close>

definition addReturn :: "string \<Rightarrow> return_form_data \<Rightarrow> app_state \<Rightarrow> (error + unit) \<times> app_state" where
  "addReturn docId data s =
    (case find (\<lambda>item. isItemReturned (returns s) (rf_referenceId data) (ri_id item)) (rf_items data) of
      Some item \<Rightarrow> (Inl (ItemAlreadyReturned (ri_name item)), s)
    | None \<Rightarrow>
        let tot = (case rf_total data of
                     Some t \<Rightarrow> if t \<noteq> 0 then t else itemsTotal (rf_items data)
                   | None \<Rightarrow> itemsTotal (rf_items data));
            locationId =
              (case currentLocation s of
                Some l \<Rightarrow> Some (location_id l)
              | None \<Rightarrow>
                  if truthy (userLocationId (currentUser s)) then userLocationId (currentUser s)
                  else None)
        in if \<not> truthy locationId \<and> userRole (currentUser s) \<noteq> Some Superadmin
           then (Inl NoLocationAvailable, s)
           else
            (case updateQuantities (rf_type data) (products s) (rf_items data) (products s) of
              (Some err, store) \<Rightarrow> (Inl err, s\<lparr>products := store\<rparr>)
            | (None, store) \<Rightarrow>
                let returnData = \<lparr>return_id = docId, return_type = rf_type data,
                      referenceId = rf_referenceId data, return_items = rf_items data,
                      return_reason = rf_reason data, return_total = tot,
                      return_refundMethod = rf_refundMethod data, return_locationId = locationId,
                      return_createdBy = map_option uid (currentUser s),
                      return_status = ''completed''\<rparr>
                in (Inr (),
                    refreshSales (refreshReturns
                      (s\<lparr>products := store, returnsDb := returnData # returnsDb s\<rparr>)))))"


section \<open>Example data\<close>

definition rice :: product where
  "rice = \<lparr>product_id = ''p1'', product_name = ''Rice'', product_price = 50,
            product_categoryId = ''c1'', product_quantity = 1, product_locationId = Some ''L1''\<rparr>"

definition riceLine :: cart_item where
  "riceLine = \<lparr>item_id = ''i1'', item_productId = ''p1'', item_name = ''Rice'',
                item_price = 50, item_quantity = 2\<rparr>"

definition emptyState :: app_state where
  "emptyState = \<lparr>currentUser = None, currentLocation = None, products = [], items = [],
     salesDb = [], sales = [], returnsDb = [], returns = [], categoriesDb = [],
     categories = [], counter = None\<rparr>"

definition lastUnit :: app_state where
  "lastUnit = emptyState\<lparr>products := [rice], items := [riceLine]\<rparr>"


definition storeA :: location where
  "storeA = \<lparr>location_id = ''L1'', location_name = ''Main Street''\<rparr>"

definition storeB :: location where
  "storeB = \<lparr>location_id = ''L2'', location_name = ''Harbour''\<rparr>"

definition clerk :: user where
  "clerk = \<lparr>uid = ''u1'', role = Salesperson, isActive = True, user_locationId = Some ''L1''\<rparr>"

definition floorManager :: user where
  "floorManager = \<lparr>uid = ''u2'', role = Manager, isActive = True, user_locationId = None\<rparr>"

definition headOffice :: user where
  "headOffice = \<lparr>uid = ''u0'', role = Superadmin, isActive = True, user_locationId = None\<rparr>"

definition saleA :: sale where
  "saleA = \<lparr>sale_id = ''s1'', invoiceNumber = ''MHF-20240131-0001'', sale_items = [riceLine],
     sale_subtotal = 100, sale_cgst = 5 / 2, sale_sgst = 5 / 2, sale_total = 105,
     sale_paymentMethod = Cash, sale_locationId = Some ''L1'', sale_createdBy = ''u1''\<rparr>"

definition saleB :: sale where
  "saleB = saleA\<lparr>sale_id := ''s2'', invoiceNumber := ''MHF-20240131-0002'',
     sale_locationId := Some ''L2'', sale_createdBy := ''u3''\<rparr>"

definition riceBack :: return_item where
  "riceBack = \<lparr>ri_id = ''i1'', ri_productId = ''p1'', ri_name = ''Rice'', ri_quantity = 2,
     ri_price = 50\<rparr>"

definition returnA :: return_doc where
  "returnA = \<lparr>return_id = ''r1'', return_type = SaleReturn, referenceId = ''s1'',
     return_items = [riceBack], return_reason = ''damaged'', return_total = 100,
     return_refundMethod = Some Cash, return_locationId = Some ''L1'',
     return_createdBy = Some ''u1'', return_status = ''completed''\<rparr>"

definition returnB :: return_doc where
  "returnB = returnA\<lparr>return_id := ''r2'', referenceId := ''s2'', return_locationId := Some ''L2''\<rparr>"

definition categoryA :: category where
  "categoryA = \<lparr>category_id = ''c1'', category_name = ''Grains'', category_locationId = Some ''L1''\<rparr>"

definition categoryB :: category where
  "categoryB = \<lparr>category_id = ''c2'', category_name = ''Snacks'', category_locationId = Some ''L2''\<rparr>"

definition twoStores :: app_state where
  "twoStores = emptyState\<lparr>salesDb := [saleB, saleA], returnsDb := [returnB, returnA],
     categoriesDb := [categoryA, categoryB]\<rparr>"

definition riceSale :: sale_data where
  "riceSale = \<lparr>sd_items = [riceLine], sd_subtotal = 100, sd_cgst = 5 / 2, sd_sgst = 5 / 2,
     sd_total = 105, sd_paymentMethod = Cash, sd_createdBy = ''u2'', sd_locationId = None\<rparr>"

definition managerCall :: sale_call where
  "managerCall = \<lparr>call_user = Some floorManager, call_location = None,
     call_today = ''20240131'', call_docId = ''s7'', call_data = riceSale\<rparr>"

definition clerkCall :: sale_call where
  "clerkCall = \<lparr>call_user = Some clerk, call_location = Some storeA,
     call_today = ''20240131'', call_docId = ''s8'', call_data = riceSale\<rparr>"

definition headOfficeCall :: sale_call where
  "headOfficeCall = \<lparr>call_user = Some headOffice, call_location = Some storeB,
     call_today = ''20240201'', call_docId = ''s9'', call_data = riceSale\<rparr>"

definition fiveInStock :: app_state where
  "fiveInStock = emptyState\<lparr>currentUser := Some clerk, products := [rice\<lparr>product_quantity := 5\<rparr>]\<rparr>"

definition threeInCart :: app_state where
  "threeInCart = addItem ''i3'' rice (addItem ''i2'' rice (addItem ''i1'' rice fiveInStock))"

definition riceReturn :: return_form_data where
  "riceReturn = \<lparr>rf_type = SaleReturn, rf_referenceId = ''s1'', rf_items = [riceBack],
     rf_reason = ''damaged'', rf_refundMethod = Some Cash, rf_total = None\<rparr>"

definition afterSale :: app_state where
  "afterSale = emptyState\<lparr>currentUser := Some clerk, currentLocation := Some storeA,
     products := [rice\<lparr>product_quantity := 3\<rparr>], salesDb := [saleA], sales := [saleA]\<rparr>"



definition riceBackAgain :: return_item where
  "riceBackAgain = riceBack\<lparr>ri_id := ''i2'', ri_quantity := 3\<rparr>"

section \<open>Unfolding the examples\<close>

lemmas example_defs =
  emptyState_def twoStores_def storeA_def storeB_def clerk_def floorManager_def headOffice_def
  saleA_def saleB_def returnA_def returnB_def categoryA_def categoryB_def riceBack_def
  riceLine_def rice_def riceSale_def

section \<open>Ledger lemmas\<close>

lemma findProduct_mem:
  "findProduct ps pid = Some p \<Longrightarrow> p \<in> set ps \<and> product_id p = pid"
  unfolding findProduct_def by (induction ps) (auto split: if_splits)






section \<open>Claims about the cart and the ledger\<close>



section \<open>Claims about location scoping\<close>










section \<open>Invoice numbers\<close>

declare String_nat.simps [simp del]

lemma below_ten: "d < 10 \<Longrightarrow> d \<in> {0, 1, 2, 3, 4, 5, 6, 7, 8, 9 :: nat}"
  by auto

lemma digitVal_digitChar: "d < 10 \<Longrightarrow> digitVal (digitChar d) = d"
  by (drule below_ten) (auto simp: digitVal_def digitChar_def)

lemma digitChar_not_dash: "d < 10 \<Longrightarrow> digitChar d \<noteq> CHR ''-''"
  by (drule below_ten) (auto simp: digitChar_def)

lemma nat_of_string_snoc: "nat_of_string (xs @ [c]) = 10 * nat_of_string xs + digitVal c"
  by (simp add: nat_of_string_def)

lemma nat_of_string_String_nat: "nat_of_string (String_nat n) = n"
proof (induction n rule: String_nat.induct)
  case (1 n)
  show ?case
  proof (cases "n < 10")
    case True
    then have "String_nat n = [digitChar n]"
      by (subst String_nat.simps) simp
    with True show ?thesis
      by (simp add: nat_of_string_def digitVal_digitChar)
  next
    case False
    then have unfold: "String_nat n = String_nat (n div 10) @ [digitChar (n mod 10)]"
      by (subst String_nat.simps) simp
    from False have "nat_of_string (String_nat (n div 10)) = n div 10"
      by (rule "1.IH")
    with unfold show ?thesis
      by (simp add: nat_of_string_snoc digitVal_digitChar)
  qed
qed

lemma String_nat_no_dash: "CHR ''-'' \<notin> set (String_nat n)"
proof (induction n rule: String_nat.induct)
  case (1 n)
  show ?case
  proof (cases "n < 10")
    case True
    then have "String_nat n = [digitChar n]"
      by (subst String_nat.simps) simp
    with True digitChar_not_dash [of n] show ?thesis
      by auto
  next
    case False
    then have unfold: "String_nat n = String_nat (n div 10) @ [digitChar (n mod 10)]"
      by (subst String_nat.simps) simp
    from False have "CHR ''-'' \<notin> set (String_nat (n div 10))"
      by (rule "1.IH")
    with unfold digitChar_not_dash [of "n mod 10"] show ?thesis
      by auto
  qed
qed

lemma digitVal_zero: "digitVal (CHR ''0'') = 0"
  by (simp add: digitVal_def)

lemma nat_of_string_zeros: "nat_of_string (replicate k (CHR ''0'') @ str) = nat_of_string str"
proof -
  have "foldl (\<lambda>acc c. 10 * acc + digitVal c) 0 (replicate k (CHR ''0'')) = 0"
    by (induction k) (simp_all add: digitVal_zero)
  then show ?thesis
    by (simp add: nat_of_string_def)
qed

lemma counterOf_padded:
  "counterOf (pre @ ''-'' @ padStart 4 (CHR ''0'') (String_nat n)) = n"
proof -
  let ?ds = "padStart 4 (CHR ''0'') (String_nat n)"
  have nodash: "\<forall>c\<in>set (rev ?ds). c \<noteq> CHR ''-''"
    using String_nat_no_dash [of n] by (auto simp: padStart_def)
  have "rev (pre @ ''-'' @ ?ds) = rev ?ds @ CHR ''-'' # rev pre"
    by simp
  then have "takeWhile (\<lambda>c. c \<noteq> CHR ''-'') (rev (pre @ ''-'' @ ?ds)) =
      takeWhile (\<lambda>c. c \<noteq> CHR ''-'') (rev ?ds)"
    by (simp add: takeWhile_tail)
  also have "\<dots> = rev ?ds"
    using nodash by (simp only: takeWhile_eq_all_conv)
  finally have "counterOf (pre @ ''-'' @ ?ds) = nat_of_string ?ds"
    by (simp add: counterOf_def)
  then show ?thesis
    by (simp add: padStart_def nat_of_string_zeros nat_of_string_String_nat)
qed

lemma getNextInvoiceNumber_fst:
  "fst (getNextInvoiceNumber today s) =
    ''MHF-'' @ today @ ''-'' @ padStart 4 (CHR ''0'') (String_nat (Suc (currentCountOf s)))"
  by (simp add: getNextInvoiceNumber_def currentCountOf_def Let_def split: option.splits)

lemma getNextInvoiceNumber_snd:
  "snd (getNextInvoiceNumber today s) = s\<lparr>counter := Some (Suc (currentCountOf s))\<rparr>"
  by (simp add: getNextInvoiceNumber_def currentCountOf_def Let_def split: option.splits)

lemma counterOf_next: "counterOf (fst (getNextInvoiceNumber today s)) = Suc (currentCountOf s)"
proof -
  have "counterOf ((''MHF-'' @ today) @ ''-'' @
      padStart 4 (CHR ''0'') (String_nat (Suc (currentCountOf s)))) = Suc (currentCountOf s)"
    by (rule counterOf_padded)
  then show ?thesis
    by (simp add: getNextInvoiceNumber_fst)
qed

section \<open>addSale\<close>

lemma addSale_rejected:
  assumes "\<not> truthy (sd_locationId saleData)" and "currentLocation s = None"
    and "\<not> truthy (userLocationId (currentUser s))"
    and "userRole (currentUser s) \<noteq> Some Superadmin"
  shows "addSale today docId saleData s =
    (Inl NoLocationAvailable, s\<lparr>counter := Some (Suc (currentCountOf s))\<rparr>)"
  using assms getNextInvoiceNumber_snd [of today s]
  by (simp add: addSale_def Let_def split_beta)

lemma addSale_cases:
  "addSale today docId saleData s =
      (Inl NoLocationAvailable, s\<lparr>counter := Some (Suc (currentCountOf s))\<rparr>) \<or>
   (\<exists>loc. addSale today docId saleData s =
      (Inr \<lparr>sale_id = docId, invoiceNumber = fst (getNextInvoiceNumber today s),
            sale_items = sd_items saleData, sale_subtotal = sd_subtotal saleData,
            sale_cgst = sd_cgst saleData, sale_sgst = sd_sgst saleData,
            sale_total = sd_total saleData, sale_paymentMethod = sd_paymentMethod saleData,
            sale_locationId = loc, sale_createdBy = sd_createdBy saleData\<rparr>,
       refreshSales (s\<lparr>counter := Some (Suc (currentCountOf s)),
         salesDb := \<lparr>sale_id = docId, invoiceNumber = fst (getNextInvoiceNumber today s),
            sale_items = sd_items saleData, sale_subtotal = sd_subtotal saleData,
            sale_cgst = sd_cgst saleData, sale_sgst = sd_sgst saleData,
            sale_total = sd_total saleData, sale_paymentMethod = sd_paymentMethod saleData,
            sale_locationId = loc, sale_createdBy = sd_createdBy saleData\<rparr> # salesDb s\<rparr>)))"
  using getNextInvoiceNumber_snd [of today s]
  by (simp add: addSale_def Let_def split_beta)

lemma addSale_counter:
  "counter (snd (addSale today docId saleData s)) = Some (Suc (currentCountOf s))"
  using addSale_cases [of today docId saleData s]
  by (auto simp: refreshSales_def)

lemma addSale_products: "products (snd (addSale today docId saleData s)) = products s"
  using addSale_cases [of today docId saleData s]
  by (auto simp: refreshSales_def)

lemma addSale_salesDb:
  "salesDb (snd (addSale today docId saleData s)) = salesDb s \<or>
   (\<exists>x. salesDb (snd (addSale today docId saleData s)) = x # salesDb s \<and>
      invoiceNumber x = fst (getNextInvoiceNumber today s))"
  using addSale_cases [of today docId saleData s]
  by (auto simp: refreshSales_def)

lemma addSale_success:
  assumes "fst (addSale today docId saleData s) = Inr x"
  shows "invoiceNumber x = fst (getNextInvoiceNumber today s) \<and>
    salesDb (snd (addSale today docId saleData s)) = x # salesDb s"
  using assms addSale_cases [of today docId saleData s]
  by (auto simp: refreshSales_def)

lemma addSale_step_avoid:
  assumes "k \<le> currentCountOf s" and "\<forall>x\<in>set (salesDb s). counterOf (invoiceNumber x) \<noteq> k"
  shows "k \<le> currentCountOf (snd (addSale today docId saleData s)) \<and>
    (\<forall>x\<in>set (salesDb (snd (addSale today docId saleData s))). counterOf (invoiceNumber x) \<noteq> k)"
proof -
  have c: "currentCountOf (snd (addSale today docId saleData s)) = Suc (currentCountOf s)"
    by (simp add: currentCountOf_def addSale_counter)
  from addSale_salesDb [of today docId saleData s] assms counterOf_next [of today s]
  have "\<forall>x\<in>set (salesDb (snd (addSale today docId saleData s))). counterOf (invoiceNumber x) \<noteq> k"
    by auto
  with c assms(1) show ?thesis
    by simp
qed

lemma sequentialSales_avoid:
  "k \<le> currentCountOf s \<Longrightarrow> \<forall>x\<in>set (salesDb s). counterOf (invoiceNumber x) \<noteq> k \<Longrightarrow>
    \<forall>x\<in>set (salesDb (sequentialSales calls s)). counterOf (invoiceNumber x) \<noteq> k"
proof (induction calls arbitrary: s)
  case Nil
  then show ?case by simp
next
  case (Cons c cs)
  let ?s1 = "s\<lparr>currentUser := call_user c, currentLocation := call_location c\<rparr>"
  let ?s2 = "snd (addSale (call_today c) (call_docId c) (call_data c) ?s1)"
  from Cons.prems have "k \<le> currentCountOf ?s1"
    and "\<forall>x\<in>set (salesDb ?s1). counterOf (invoiceNumber x) \<noteq> k"
    by (simp_all add: currentCountOf_def)
  then have "k \<le> currentCountOf ?s2 \<and> (\<forall>x\<in>set (salesDb ?s2). counterOf (invoiceNumber x) \<noteq> k)"
    by (rule addSale_step_avoid)
  then have "\<forall>x\<in>set (salesDb (sequentialSales cs ?s2)). counterOf (invoiceNumber x) \<noteq> k"
    using Cons.IH [of ?s2] by blast
  then show ?case by simp
qed

lemma addSale_step_increasing:
  assumes "invoicesIssued s" and "invoicesIncreasing s"
  shows "invoicesIssued (snd (addSale today docId saleData s)) \<and>
    invoicesIncreasing (snd (addSale today docId saleData s))"
proof -
  let ?s' = "snd (addSale today docId saleData s)"
  have c: "currentCountOf ?s' = Suc (currentCountOf s)"
    by (simp add: currentCountOf_def addSale_counter)
  from assms(1) have old: "\<forall>x\<in>set (salesDb s). counterOf (invoiceNumber x) \<le> currentCountOf s"
    by (simp add: invoicesIssued_def list_all_iff)
  from addSale_salesDb [of today docId saleData s] show ?thesis
  proof
    assume "salesDb ?s' = salesDb s"
    with assms old c show ?thesis
      by (auto simp: invoicesIssued_def invoicesIncreasing_def list_all_iff)
  next
    assume "\<exists>x. salesDb ?s' = x # salesDb s \<and> invoiceNumber x = fst (getNextInvoiceNumber today s)"
    then obtain x where x: "salesDb ?s' = x # salesDb s"
      and "invoiceNumber x = fst (getNextInvoiceNumber today s)"
      by blast
    then have "counterOf (invoiceNumber x) = Suc (currentCountOf s)"
      by (simp add: counterOf_next)
    with x assms(2) old c show ?thesis
      by (fastforce simp: invoicesIssued_def invoicesIncreasing_def list_all_iff)
  qed
qed

lemma sequentialSales_increasing:
  "invoicesIssued s \<Longrightarrow> invoicesIncreasing s \<Longrightarrow>
    invoicesIssued (sequentialSales calls s) \<and> invoicesIncreasing (sequentialSales calls s)"
proof (induction calls arbitrary: s)
  case Nil
  then show ?case by simp
next
  case (Cons c cs)
  let ?s1 = "s\<lparr>currentUser := call_user c, currentLocation := call_location c\<rparr>"
  let ?s2 = "snd (addSale (call_today c) (call_docId c) (call_data c) ?s1)"
  from Cons.prems have "invoicesIssued ?s1" and "invoicesIncreasing ?s1"
    by (simp_all add: invoicesIssued_def invoicesIncreasing_def currentCountOf_def)
  then have "invoicesIssued ?s2 \<and> invoicesIncreasing ?s2"
    by (rule addSale_step_increasing)
  then have "invoicesIssued (sequentialSales cs ?s2) \<and> invoicesIncreasing (sequentialSales cs ?s2)"
    using Cons.IH [of ?s2] by blast
  then show ?case by simp
qed

lemma increasing_distinct:
  "sorted_wrt (>) (map (counterOf \<circ> invoiceNumber) xs) \<Longrightarrow> distinct (map invoiceNumber xs)"
  by (induction xs) auto

section \<open>Claims about sales\<close>



text \<open>
  C9. The invoice counter is the one document \<open>counters/sales\<close>, whatever the location
  of the sale. Every \<open>addSale\<close> reads it, adds one (starting at 1 when the document
  does not exist) and writes it back; a sale that is persisted carries the number
  \<open>MHF-\<close>, the date, \<open>-\<close> and the new count padded to four digits, and is put in the
  collection. In a sequential run of \<open>addSale\<close> calls, by any users at any locations,
  from a collection whose sales carry strictly increasing counts that have been handed
  out already (the empty collection is one), the persisted sales still carry strictly
  increasing counts and no two of them share an invoice number.
\<close>

theorem invoice_numbers_unique:
  "counter (snd (addSale today docId saleData s)) = Some (Suc (currentCountOf s)) \<and>
   (\<forall>x. fst (addSale today docId saleData s) = Inr x \<longrightarrow>
      invoiceNumber x =
        ''MHF-'' @ today @ ''-'' @ padStart 4 (CHR ''0'') (String_nat (Suc (currentCountOf s))) \<and>
      counterOf (invoiceNumber x) = Suc (currentCountOf s) \<and>
      salesDb (snd (addSale today docId saleData s)) = x # salesDb s) \<and>
   (invoicesIssued s \<and> invoicesIncreasing s \<longrightarrow>
      invoicesIssued (sequentialSales calls s) \<and>
      invoicesIncreasing (sequentialSales calls s) \<and>
      distinct (map invoiceNumber (salesDb (sequentialSales calls s))))"
proof (intro conjI allI impI)
  show "counter (snd (addSale today docId saleData s)) = Some (Suc (currentCountOf s))"
    by (rule addSale_counter)
next
  fix x
  assume ok: "fst (addSale today docId saleData s) = Inr x"
  then have inv: "invoiceNumber x = fst (getNextInvoiceNumber today s)"
    and db: "salesDb (snd (addSale today docId saleData s)) = x # salesDb s"
    using addSale_success [of today docId saleData s x] by blast+
  from inv show "invoiceNumber x =
      ''MHF-'' @ today @ ''-'' @ padStart 4 (CHR ''0'') (String_nat (Suc (currentCountOf s)))"
    by (simp only: getNextInvoiceNumber_fst)
  from inv show "counterOf (invoiceNumber x) = Suc (currentCountOf s)"
    by (simp only: counterOf_next)
  from db show "salesDb (snd (addSale today docId saleData s)) = x # salesDb s" .
next
  assume "invoicesIssued s \<and> invoicesIncreasing s"
  then have run: "invoicesIssued (sequentialSales calls s) \<and>
      invoicesIncreasing (sequentialSales calls s)"
    by (simp add: sequentialSales_increasing)
  then show "invoicesIssued (sequentialSales calls s)"
    and "invoicesIncreasing (sequentialSales calls s)"
    by blast+
  from run show "distinct (map invoiceNumber (salesDb (sequentialSales calls s)))"
    by (simp add: invoicesIncreasing_def increasing_distinct)
qed

lemma three_calls:
  "map invoiceNumber (salesDb (sequentialSales [clerkCall, managerCall, headOfficeCall] emptyState)) =
     [''MHF-20240201-0003'', ''MHF-20240131-0001''] \<and>
   map sale_locationId (salesDb (sequentialSales [clerkCall, managerCall, headOfficeCall] emptyState)) =
     [Some ''L2'', Some ''L1''] \<and>
   counter (sequentialSales [clerkCall, managerCall, headOfficeCall] emptyState) = Some 3"
  by code_simp

theorem invoice_numbers_unique_witness:
  "invoicesIssued emptyState \<and> invoicesIncreasing emptyState \<and>
   map invoiceNumber (salesDb (sequentialSales [clerkCall, managerCall, headOfficeCall] emptyState)) =
     [''MHF-20240201-0003'', ''MHF-20240131-0001''] \<and>
   map sale_locationId (salesDb (sequentialSales [clerkCall, managerCall, headOfficeCall] emptyState)) =
     [Some ''L2'', Some ''L1''] \<and>
   counter (sequentialSales [clerkCall, managerCall, headOfficeCall] emptyState) = Some 3 \<and>
   invoicesIncreasing (sequentialSales [clerkCall, managerCall, headOfficeCall] emptyState) \<and>
   distinct (map invoiceNumber
     (salesDb (sequentialSales [clerkCall, managerCall, headOfficeCall] emptyState)))"
proof -
  have h: "invoicesIssued emptyState \<and> invoicesIncreasing emptyState"
    by (simp add: invoicesIssued_def invoicesIncreasing_def emptyState_def)
  from invoice_numbers_unique [of _ _ _ emptyState "[clerkCall, managerCall, headOfficeCall]"] h
  have "invoicesIncreasing (sequentialSales [clerkCall, managerCall, headOfficeCall] emptyState) \<and>
      distinct (map invoiceNumber
        (salesDb (sequentialSales [clerkCall, managerCall, headOfficeCall] emptyState)))"
    by blast
  with h three_calls show ?thesis
    by blast
qed

text \<open>
  C10. \<open>addSale\<close> takes the next invoice number before it looks for a location. A call
  that is rejected with the no-location error therefore leaves the counter one higher,
  with no sale persisted, and the number it took is given to no sale: when the sales
  persisted so far carry counts handed out before the call, no later sequential run of
  \<open>addSale\<close> calls persists a sale with that number.
\<close>

theorem rejected_sale_keeps_number:
  "\<not> truthy (sd_locationId saleData) \<and> currentLocation s = None \<and>
   \<not> truthy (userLocationId (currentUser s)) \<and> userRole (currentUser s) \<noteq> Some Superadmin \<longrightarrow>
     fst (addSale today docId saleData s) = Inl NoLocationAvailable \<and>
     counter (snd (addSale today docId saleData s)) = Some (Suc (currentCountOf s)) \<and>
     salesDb (snd (addSale today docId saleData s)) = salesDb s \<and>
     (invoicesIssued s \<longrightarrow>
        (\<forall>calls. fst (getNextInvoiceNumber today s) \<notin>
           set (map invoiceNumber
             (salesDb (sequentialSales calls (snd (addSale today docId saleData s)))))))"
proof (intro impI conjI allI)
  assume a: "\<not> truthy (sd_locationId saleData) \<and> currentLocation s = None \<and>
    \<not> truthy (userLocationId (currentUser s)) \<and> userRole (currentUser s) \<noteq> Some Superadmin"
  then have r: "addSale today docId saleData s =
      (Inl NoLocationAvailable, s\<lparr>counter := Some (Suc (currentCountOf s))\<rparr>)"
    by (simp add: addSale_rejected)
  then show "fst (addSale today docId saleData s) = Inl NoLocationAvailable"
    and "counter (snd (addSale today docId saleData s)) = Some (Suc (currentCountOf s))"
    and "salesDb (snd (addSale today docId saleData s)) = salesDb s"
    by simp_all
  fix calls
  assume "invoicesIssued s"
  then have old: "\<forall>x\<in>set (salesDb s). counterOf (invoiceNumber x) \<le> currentCountOf s"
    by (simp add: invoicesIssued_def list_all_iff)
  let ?s' = "snd (addSale today docId saleData s)"
  let ?k = "Suc (currentCountOf s)"
  from r have "?k \<le> currentCountOf ?s'"
    by (simp add: currentCountOf_def)
  moreover from r old have "\<forall>x\<in>set (salesDb ?s'). counterOf (invoiceNumber x) \<noteq> ?k"
    by auto
  ultimately have "\<forall>x\<in>set (salesDb (sequentialSales calls ?s')). counterOf (invoiceNumber x) \<noteq> ?k"
    by (rule sequentialSales_avoid)
  then show "fst (getNextInvoiceNumber today s) \<notin>
      set (map invoiceNumber (salesDb (sequentialSales calls ?s')))"
    using counterOf_next [of today s] by auto
qed

lemma rejected_then_sold:
  "fst (getNextInvoiceNumber ''20240131'' (emptyState\<lparr>currentUser := Some floorManager\<rparr>)) =
     ''MHF-20240131-0001'' \<and>
   map invoiceNumber (salesDb (sequentialSales [clerkCall]
     (snd (addSale ''20240131'' ''s7'' riceSale (emptyState\<lparr>currentUser := Some floorManager\<rparr>))))) =
     [''MHF-20240131-0002'']"
  by code_simp

theorem rejected_sale_keeps_number_witness:
  "fst (addSale ''20240131'' ''s7'' riceSale (emptyState\<lparr>currentUser := Some floorManager\<rparr>)) =
     Inl NoLocationAvailable \<and>
   counter (snd (addSale ''20240131'' ''s7'' riceSale (emptyState\<lparr>currentUser := Some floorManager\<rparr>))) =
     Some 1 \<and>
   salesDb (snd (addSale ''20240131'' ''s7'' riceSale (emptyState\<lparr>currentUser := Some floorManager\<rparr>))) = [] \<and>
   fst (getNextInvoiceNumber ''20240131'' (emptyState\<lparr>currentUser := Some floorManager\<rparr>)) =
     ''MHF-20240131-0001'' \<and>
   map invoiceNumber (salesDb (sequentialSales [clerkCall]
     (snd (addSale ''20240131'' ''s7'' riceSale (emptyState\<lparr>currentUser := Some floorManager\<rparr>))))) =
     [''MHF-20240131-0002''] \<and>
   ''MHF-20240131-0001'' \<notin> set (map invoiceNumber (salesDb (sequentialSales [clerkCall]
     (snd (addSale ''20240131'' ''s7'' riceSale (emptyState\<lparr>currentUser := Some floorManager\<rparr>))))))"
proof -
  let ?m = "emptyState\<lparr>currentUser := Some floorManager\<rparr>"
  have m: "\<not> truthy (sd_locationId riceSale) \<and> currentLocation ?m = None \<and>
      \<not> truthy (userLocationId (currentUser ?m)) \<and> userRole (currentUser ?m) \<noteq> Some Superadmin"
    by (simp add: truthy_def userLocationId_def userRole_def example_defs)
  have i: "invoicesIssued ?m \<and> salesDb ?m = [] \<and> currentCountOf ?m = 0"
    by (simp add: invoicesIssued_def currentCountOf_def example_defs)
  from rejected_sale_keeps_number [of riceSale ?m "''20240131''" "''s7''"] m i
  have "fst (addSale ''20240131'' ''s7'' riceSale ?m) = Inl NoLocationAvailable \<and>
      counter (snd (addSale ''20240131'' ''s7'' riceSale ?m)) = Some (Suc (currentCountOf ?m)) \<and>
      salesDb (snd (addSale ''20240131'' ''s7'' riceSale ?m)) = salesDb ?m \<and>
      fst (getNextInvoiceNumber ''20240131'' ?m) \<notin>
        set (map invoiceNumber (salesDb (sequentialSales [clerkCall]
          (snd (addSale ''20240131'' ''s7'' riceSale ?m)))))"
    by blast
  with i rejected_then_sold show ?thesis
    by simp
qed

section \<open>Checkout and the cart round trip\<close>

lemma findProduct_updateProduct:
  "product_id d = pid \<Longrightarrow>
    findProduct (updateProduct pid d ps) pid' =
      (if pid' = pid then (case findProduct ps pid of None \<Rightarrow> None | Some p \<Rightarrow> Some d)
       else findProduct ps pid')"
  unfolding findProduct_def updateProduct_def by (induction ps) auto

lemma find_snoc:
  "find P (xs @ [y]) = (case find P xs of Some x \<Rightarrow> Some x | None \<Rightarrow> if P y then Some y else None)"
  by (induction xs) auto

lemma filter_fresh: "\<forall>i\<in>set xs. item_id i \<noteq> cid \<Longrightarrow> filter (\<lambda>i. item_id i \<noteq> cid) xs = xs"
  by (induction xs) auto

lemma find_fresh: "\<forall>i\<in>set xs. item_id i \<noteq> cid \<Longrightarrow> find (\<lambda>i. item_id i = cid) xs = None"
  by (induction xs) auto

text \<open>
  C5. Checkout makes no ledger change: \<open>addSale\<close> followed by \<open>clearCart\<close>, and
  \<open>handleConfirmCheckout\<close> which runs them, leave the product list as it was, for
  every cart and every outcome of \<open>addSale\<close>. In the example a product starts at 5,
  three units go to the cart and leave 2, and after the cash checkout the quantity is
  still 2 while the persisted sale holds the line of 3 units.
\<close>

theorem checkout_keeps_stock:
  "products (clearCart (snd (addSale today docId saleData s))) = products s \<and>
   products (handleConfirmCheckout today docId pm s) = products s"
proof
  show "products (clearCart (snd (addSale today docId saleData s))) = products s"
    by (simp add: clearCart_def addSale_products)
next
  show "products (handleConfirmCheckout today docId pm s) = products s"
  proof (cases "currentUser s")
    case None
    then show ?thesis
      by (simp add: handleConfirmCheckout_def)
  next
    case (Some u)
    let ?sd = "\<lparr>sd_items = items s, sd_subtotal = subtotal s, sd_cgst = cgst s, sd_sgst = sgst s,
      sd_total = total s, sd_paymentMethod = pm, sd_createdBy = uid u,
      sd_locationId = user_locationId u\<rparr>"
    have "products (snd (addSale today docId ?sd s)) = products s"
      by (rule addSale_products)
    with Some show ?thesis
      by (auto simp: handleConfirmCheckout_def clearCart_def split: prod.splits sum.splits)
  qed
qed

lemma scenario_A:
  "map product_quantity (products fiveInStock) = [5] \<and>
   map product_quantity (products threeInCart) = [2] \<and>
   map item_quantity (items threeInCart) = [3] \<and>
   map (map item_quantity \<circ> sale_items) (salesDb (handleConfirmCheckout ''20240131'' ''s1'' Cash threeInCart)) = [[3]] \<and>
   map (map item_productId \<circ> sale_items) (salesDb (handleConfirmCheckout ''20240131'' ''s1'' Cash threeInCart)) = [[''p1'']] \<and>
   map sale_paymentMethod (salesDb (handleConfirmCheckout ''20240131'' ''s1'' Cash threeInCart)) = [Cash] \<and>
   items (handleConfirmCheckout ''20240131'' ''s1'' Cash threeInCart) = []"
  by code_simp

theorem checkout_keeps_stock_example:
  "map product_quantity (products fiveInStock) = [5] \<and>
   map product_quantity (products threeInCart) = [2] \<and>
   map item_quantity (items threeInCart) = [3] \<and>
   map (map item_quantity \<circ> sale_items) (salesDb (handleConfirmCheckout ''20240131'' ''s1'' Cash threeInCart)) = [[3]] \<and>
   map sale_paymentMethod (salesDb (handleConfirmCheckout ''20240131'' ''s1'' Cash threeInCart)) = [Cash] \<and>
   items (handleConfirmCheckout ''20240131'' ''s1'' Cash threeInCart) = [] \<and>
   map product_quantity (products (handleConfirmCheckout ''20240131'' ''s1'' Cash threeInCart)) = [2]"
proof -
  from checkout_keeps_stock [of "''20240131''" "''s1''" _ threeInCart Cash]
  have "products (handleConfirmCheckout ''20240131'' ''s1'' Cash threeInCart) = products threeInCart"
    by blast
  with scenario_A show ?thesis
    by simp
qed

text \<open>
  C6, as amended. For a product that is found with a positive quantity, a cart that
  holds no line for it and a line identifier that no line of the cart carries,
  \<open>addItem\<close> followed by \<open>removeItem\<close> of the new line restores the cart's lines and
  the product list's answer for every product identifier, the product's quantity
  included; and when the location check lets the product through, \<open>addItem\<close> did add
  the line of quantity 1 and did take one unit.
\<close>

theorem add_remove_round_trip:
  "findProduct (products s) (product_id prd) = Some cp \<and> 0 < product_quantity cp \<and>
   find (\<lambda>i. item_productId i = product_id prd) (items s) = None \<and>
   (\<forall>i\<in>set (items s). item_id i \<noteq> uuid) \<longrightarrow>
     items (removeItem uuid (addItem uuid prd s)) = items s \<and>
     (\<forall>pid. findProduct (products (removeItem uuid (addItem uuid prd s))) pid =
        findProduct (products s) pid) \<and>
     (\<not> (case currentLocation s of
            None \<Rightarrow> False
          | Some cl \<Rightarrow> truthy (product_locationId cp) \<and>
              product_locationId cp \<noteq> Some (location_id cl)) \<longrightarrow>
        items (addItem uuid prd s) =
          items s @ [\<lparr>item_id = uuid, item_productId = product_id prd,
            item_name = product_name prd, item_price = product_price prd, item_quantity = 1\<rparr>] \<and>
        findProduct (products (addItem uuid prd s)) (product_id prd) =
          Some (cp\<lparr>product_quantity := product_quantity cp - 1\<rparr>))"
proof (intro impI)
  assume a: "findProduct (products s) (product_id prd) = Some cp \<and> 0 < product_quantity cp \<and>
   find (\<lambda>i. item_productId i = product_id prd) (items s) = None \<and>
   (\<forall>i\<in>set (items s). item_id i \<noteq> uuid)"
  then have found: "findProduct (products s) (product_id prd) = Some cp"
    and pos: "0 < product_quantity cp"
    and noline: "find (\<lambda>i. item_productId i = product_id prd) (items s) = None"
    and fresh: "\<forall>i\<in>set (items s). item_id i \<noteq> uuid"
    by blast+
  from found have pid: "product_id cp = product_id prd"
    using findProduct_mem by blast
  let ?blocked = "case currentLocation s of
            None \<Rightarrow> False
          | Some cl \<Rightarrow> truthy (product_locationId cp) \<and>
              product_locationId cp \<noteq> Some (location_id cl)"
  let ?line = "\<lparr>item_id = uuid, item_productId = product_id prd,
            item_name = product_name prd, item_price = product_price prd, item_quantity = 1\<rparr>"
  let ?cp' = "cp\<lparr>product_quantity := product_quantity cp - 1\<rparr>"
  show "items (removeItem uuid (addItem uuid prd s)) = items s \<and>
     (\<forall>pid. findProduct (products (removeItem uuid (addItem uuid prd s))) pid =
        findProduct (products s) pid) \<and>
     (\<not> ?blocked \<longrightarrow>
        items (addItem uuid prd s) = items s @ [?line] \<and>
        findProduct (products (addItem uuid prd s)) (product_id prd) = Some ?cp')"
  proof (cases ?blocked)
    case True
    with found have "addItem uuid prd s = s"
      by (simp add: addItem_def)
    moreover from fresh have "removeItem uuid s = s"
      by (simp add: removeItem_def find_fresh)
    ultimately show ?thesis
      using True by simp
  next
    case False
    with found pos noline pid
    have add: "addItem uuid prd s =
        s\<lparr>products := updateProduct (product_id prd) ?cp' (products s), items := items s @ [?line]\<rparr>"
      by (simp add: addItem_def)
    have look: "findProduct (updateProduct (product_id prd) ?cp' (products s)) (product_id prd) = Some ?cp'"
      using found pid by (simp add: findProduct_updateProduct)
    have line: "find (\<lambda>i. item_id i = uuid) (items s @ [?line]) = Some ?line"
      using fresh by (simp add: find_snoc find_fresh)
    from add look line pid
    have rem: "removeItem uuid (addItem uuid prd s) =
        s\<lparr>products := updateProduct (product_id prd) cp
              (updateProduct (product_id prd) ?cp' (products s)),
          items := filter (\<lambda>i. item_id i \<noteq> uuid) (items s @ [?line])\<rparr>"
      by (simp add: removeItem_def)
    have its: "items (removeItem uuid (addItem uuid prd s)) = items s"
      using rem fresh by (simp add: filter_fresh)
    have prods: "\<forall>pid. findProduct (products (removeItem uuid (addItem uuid prd s))) pid =
        findProduct (products s) pid"
      using rem found pid by (simp add: findProduct_updateProduct)
    from its prods add look show ?thesis
      by simp
  qed
qed

lemma round_trip_example:
  "findProduct (products fiveInStock) (product_id rice) = Some (rice\<lparr>product_quantity := 5\<rparr>) \<and>
   find (\<lambda>i. item_productId i = product_id rice) (items fiveInStock) = None \<and>
   items fiveInStock = [] \<and>
   map item_quantity (items (addItem ''i1'' rice fiveInStock)) = [1] \<and>
   map product_quantity (products (addItem ''i1'' rice fiveInStock)) = [4] \<and>
   map product_quantity (products (removeItem ''i1'' (addItem ''i1'' rice fiveInStock))) = [5]"
  by code_simp

theorem add_remove_round_trip_witness:
  "map item_quantity (items (addItem ''i1'' rice fiveInStock)) = [1] \<and>
   map product_quantity (products (addItem ''i1'' rice fiveInStock)) = [4] \<and>
   items (removeItem ''i1'' (addItem ''i1'' rice fiveInStock)) = [] \<and>
   map product_quantity (products (removeItem ''i1'' (addItem ''i1'' rice fiveInStock))) = [5] \<and>
   findProduct (products (removeItem ''i1'' (addItem ''i1'' rice fiveInStock))) ''p1'' =
     Some (rice\<lparr>product_quantity := 5\<rparr>)"
proof -
  have h: "findProduct (products fiveInStock) (product_id rice) = Some (rice\<lparr>product_quantity := 5\<rparr>) \<and>
      0 < product_quantity (rice\<lparr>product_quantity := 5\<rparr>) \<and>
      find (\<lambda>i. item_productId i = product_id rice) (items fiveInStock) = None \<and>
      (\<forall>i\<in>set (items fiveInStock). item_id i \<noteq> ''i1'')"
    using round_trip_example by simp
  have p: "product_id rice = ''p1''"
    by (simp add: rice_def)
  from add_remove_round_trip [of fiveInStock rice "rice\<lparr>product_quantity := 5\<rparr>" "''i1''"] h
  have "items (removeItem ''i1'' (addItem ''i1'' rice fiveInStock)) = items fiveInStock \<and>
      findProduct (products (removeItem ''i1'' (addItem ''i1'' rice fiveInStock))) ''p1'' =
        findProduct (products fiveInStock) ''p1''"
    by blast
  with round_trip_example p show ?thesis
    by simp
qed

lemma second_unit_example:
  "map product_quantity (products lastUnit) = [1] \<and>
   map item_quantity (items lastUnit) = [2] \<and>
   map item_id (items (addItem ''i9'' rice lastUnit)) = [''i1''] \<and>
   map item_quantity (items (addItem ''i9'' rice lastUnit)) = [3] \<and>
   map product_quantity (products (removeItem ''i1'' (addItem ''i9'' rice lastUnit))) = [3] \<and>
   items (removeItem ''i1'' (addItem ''i9'' rice lastUnit)) = []"
  by code_simp

theorem add_remove_round_trip_counterexample:
  "map product_quantity (products lastUnit) = [1] \<and>
   map item_quantity (items lastUnit) = [2] \<and>
   map item_id (items (addItem ''i9'' rice lastUnit)) = [''i1''] \<and>
   map product_quantity (products (removeItem ''i1'' (addItem ''i9'' rice lastUnit))) = [3] \<and>
   items (removeItem ''i1'' (addItem ''i9'' rice lastUnit)) = [] \<and>
   products (removeItem ''i1'' (addItem ''i9'' rice lastUnit)) \<noteq> products lastUnit \<and>
   items (removeItem ''i1'' (addItem ''i9'' rice lastUnit)) \<noteq> items lastUnit"
proof -
  have "map product_quantity (products (removeItem ''i1'' (addItem ''i9'' rice lastUnit))) \<noteq>
      map product_quantity (products lastUnit)"
    using second_unit_example by simp
  then have "products (removeItem ''i1'' (addItem ''i9'' rice lastUnit)) \<noteq> products lastUnit"
    by auto
  moreover have "map item_quantity (items (removeItem ''i1'' (addItem ''i9'' rice lastUnit))) \<noteq>
      map item_quantity (items lastUnit)"
    using second_unit_example by simp
  then have "items (removeItem ''i1'' (addItem ''i9'' rice lastUnit)) \<noteq> items lastUnit"
    by auto
  ultimately show ?thesis
    using second_unit_example by simp
qed

section \<open>addReturn\<close>







lemma addReturn_success:
  assumes "fst (addReturn docId data s) = Inr ()"
  shows "\<exists>r store. snd (addReturn docId data s) =
      refreshSales (refreshReturns (s\<lparr>products := store, returnsDb := r # returnsDb s\<rparr>)) \<and>
    updateQuantities (rf_type data) (products s) (rf_items data) (products s) = (None, store) \<and>
    find (\<lambda>item. isItemReturned (returns s) (rf_referenceId data) (ri_id item)) (rf_items data) = None \<and>
    return_type r = rf_type data \<and> referenceId r = rf_referenceId data \<and>
    return_items r = rf_items data \<and> return_id r = docId \<and>
    return_total r = (case rf_total data of
                       Some t \<Rightarrow> if t \<noteq> 0 then t else itemsTotal (rf_items data)
                     | None \<Rightarrow> itemsTotal (rf_items data)) \<and>
    return_locationId r =
      (case currentLocation s of
        Some l \<Rightarrow> Some (location_id l)
      | None \<Rightarrow> if truthy (userLocationId (currentUser s)) then userLocationId (currentUser s)
          else None) \<and>
    (truthy (return_locationId r) \<or> userRole (currentUser s) = Some Superadmin)"
  using assms
  by (auto simp: addReturn_def Let_def split: prod.splits option.splits if_splits)







section \<open>Users without an assigned location\<close>





section \<open>What a successful return does\<close>

lemma updateQuantities_frame:
  "updateQuantities ty snapshot its store = (None, store') \<Longrightarrow>
    pid \<notin> ri_productId ` set its \<Longrightarrow> findProduct store' pid = findProduct store pid"
proof (induction its arbitrary: store)
  case Nil
  then show ?case by simp
next
  case (Cons item rest)
  from Cons.prems(1) obtain p where p: "findProduct snapshot (ri_productId item) = Some p"
    by (cases "findProduct snapshot (ri_productId item)") auto
  then have pid: "product_id p = ri_productId item"
    using findProduct_mem by blast
  let ?p' = "p\<lparr>product_quantity := product_quantity p +
      (if ty = SaleReturn then ri_quantity item else - ri_quantity item)\<rparr>"
  from Cons.prems(1) p
  have rest: "updateQuantities ty snapshot rest (updateProduct (product_id p) ?p' store) = (None, store')"
    by (simp add: Let_def)
  from Cons.prems(2) have "pid \<notin> ri_productId ` set rest" and "pid \<noteq> product_id p"
    using pid by auto
  with Cons.IH [OF rest] show ?case
    by (simp add: findProduct_updateProduct)
qed

lemma updateQuantities_lookup:
  "updateQuantities ty snapshot its store = (None, store') \<Longrightarrow>
    distinct (map ri_productId its) \<Longrightarrow> item \<in> set its \<Longrightarrow>
    findProduct store (ri_productId item) \<noteq> None \<Longrightarrow>
    \<exists>p. findProduct snapshot (ri_productId item) = Some p \<and>
      findProduct store' (ri_productId item) =
        Some (p\<lparr>product_quantity := product_quantity p +
          (if ty = SaleReturn then ri_quantity item else - ri_quantity item)\<rparr>)"
proof (induction its arbitrary: store)
  case Nil
  then show ?case by simp
next
  case (Cons x rest)
  from Cons.prems(1) obtain p where p: "findProduct snapshot (ri_productId x) = Some p"
    by (cases "findProduct snapshot (ri_productId x)") auto
  then have pid: "product_id p = ri_productId x"
    using findProduct_mem by blast
  let ?p' = "p\<lparr>product_quantity := product_quantity p +
      (if ty = SaleReturn then ri_quantity x else - ri_quantity x)\<rparr>"
  let ?store1 = "updateProduct (product_id p) ?p' store"
  from Cons.prems(1) p have rest: "updateQuantities ty snapshot rest ?store1 = (None, store')"
    by (simp add: Let_def)
  from Cons.prems(2) have fresh: "ri_productId x \<notin> ri_productId ` set rest"
    and dist: "distinct (map ri_productId rest)"
    by auto
  show ?case
  proof (cases "ri_productId item = ri_productId x")
    case True
    have ix: "item = x"
    proof (rule ccontr)
      assume "item \<noteq> x"
      with Cons.prems(3) have "item \<in> set rest"
        by simp
      then have "ri_productId item \<in> ri_productId ` set rest"
        by (rule imageI)
      with True fresh show False
        by simp
    qed
    from Cons.prems(4) ix pid have "findProduct ?store1 (ri_productId x) = Some ?p'"
      by (auto simp: findProduct_updateProduct)
    moreover from rest fresh have "findProduct store' (ri_productId x) = findProduct ?store1 (ri_productId x)"
      by (rule updateQuantities_frame)
    ultimately show ?thesis
      using p ix by simp
  next
    case False
    with Cons.prems(3) have mem: "item \<in> set rest"
      by auto
    from False Cons.prems(4) pid have "findProduct ?store1 (ri_productId item) \<noteq> None"
      by (simp add: findProduct_updateProduct)
    with Cons.IH [OF rest dist mem] show ?thesis
      by blast
  qed
qed

lemma updateQuantities_found:
  "updateQuantities ty snapshot its store = (None, store') \<Longrightarrow> item \<in> set its \<Longrightarrow>
    findProduct snapshot (ri_productId item) \<noteq> None"
  by (induction its arbitrary: store) (auto simp: Let_def split: option.splits)

text \<open>
  A successful \<open>addReturn\<close> whose items name pairwise different products moves each
  product by the item's quantity, up for a sale return and down for a purchase return,
  and stores the caller's total when that is present and not 0, otherwise the sum of
  price times quantity.
\<close>

lemma addReturn_effect:
  assumes "fst (addReturn docId data s) = Inr ()"
  shows "(\<exists>r. returnsDb (snd (addReturn docId data s)) = r # returnsDb s \<and>
      return_total r = (case rf_total data of
                         Some t \<Rightarrow> if t \<noteq> 0 then t else itemsTotal (rf_items data)
                       | None \<Rightarrow> itemsTotal (rf_items data))) \<and>
    (distinct (map ri_productId (rf_items data)) \<longrightarrow>
      (\<forall>item\<in>set (rf_items data). \<exists>p.
         findProduct (products s) (ri_productId item) = Some p \<and>
         findProduct (products (snd (addReturn docId data s))) (ri_productId item) =
           Some (p\<lparr>product_quantity := product_quantity p +
             (if rf_type data = SaleReturn then ri_quantity item else - ri_quantity item)\<rparr>)))"
proof -
  from assms obtain r store where
    s': "snd (addReturn docId data s) =
      refreshSales (refreshReturns (s\<lparr>products := store, returnsDb := r # returnsDb s\<rparr>))"
    and upd: "updateQuantities (rf_type data) (products s) (rf_items data) (products s) = (None, store)"
    and tot: "return_total r = (case rf_total data of
                       Some t \<Rightarrow> if t \<noteq> 0 then t else itemsTotal (rf_items data)
                     | None \<Rightarrow> itemsTotal (rf_items data))"
    using addReturn_success [of docId data s] by blast
  from s' have db: "returnsDb (snd (addReturn docId data s)) = r # returnsDb s"
    and ps: "products (snd (addReturn docId data s)) = store"
    by (simp_all add: refreshSales_def refreshReturns_def)
  have "\<forall>item\<in>set (rf_items data). \<exists>p.
         findProduct (products s) (ri_productId item) = Some p \<and>
         findProduct store (ri_productId item) =
           Some (p\<lparr>product_quantity := product_quantity p +
             (if rf_type data = SaleReturn then ri_quantity item else - ri_quantity item)\<rparr>)"
    if "distinct (map ri_productId (rf_items data))"
  proof
    fix item
    assume mem: "item \<in> set (rf_items data)"
    with upd have "findProduct (products s) (ri_productId item) \<noteq> None"
      by (rule updateQuantities_found)
    with upd that mem show "\<exists>p.
         findProduct (products s) (ri_productId item) = Some p \<and>
         findProduct store (ri_productId item) =
           Some (p\<lparr>product_quantity := product_quantity p +
             (if rf_type data = SaleReturn then ri_quantity item else - ri_quantity item)\<rparr>)"
      by (rule updateQuantities_lookup)
  qed
  with db tot ps show ?thesis
    by auto
qed

section \<open>Claims about returns\<close>

text \<open>
  C7. The claim's example holds: returning an item of quantity 2 at price 50 with no
  total supplied raises the product from 3 to 5 and stores the total 100. The same
  return with the total 0 supplied by the caller stores 100 as well, not the supplied 0:
  \<open>data.total || ...\<close> takes a supplied 0 for a missing total. And a return whose two
  items name the same product moves the stock by the last item only (3 to 6 for
  quantities 2 and 3): every iteration reads the product list the call started with.
\<close>

theorem return_total_ignores_zero:
  "fst (addReturn ''r1'' riceReturn afterSale) = Inr () \<and>
   map product_quantity (products afterSale) = [3] \<and>
   map product_quantity (products (snd (addReturn ''r1'' riceReturn afterSale))) = [5] \<and>
   map return_total (returnsDb (snd (addReturn ''r1'' riceReturn afterSale))) = [100] \<and>
   fst (addReturn ''r1'' (riceReturn\<lparr>rf_total := Some 0\<rparr>) afterSale) = Inr () \<and>
   map return_total (returnsDb (snd (addReturn ''r1'' (riceReturn\<lparr>rf_total := Some 0\<rparr>) afterSale))) =
     [100] \<and>
   fst (addReturn ''r1'' (riceReturn\<lparr>rf_total := Some 90\<rparr>) afterSale) = Inr () \<and>
   map return_total (returnsDb (snd (addReturn ''r1'' (riceReturn\<lparr>rf_total := Some 90\<rparr>) afterSale))) =
     [90] \<and>
   fst (addReturn ''r1'' (riceReturn\<lparr>rf_items := [riceBack, riceBackAgain]\<rparr>) afterSale) = Inr () \<and>
   map product_quantity
     (products (snd (addReturn ''r1'' (riceReturn\<lparr>rf_items := [riceBack, riceBackAgain]\<rparr>) afterSale))) =
     [6]"
  by code_simp

end
